theory Spec2Isabelle
  imports Main "HOL-Library.Product_Lexorder"
begin

section \<open>Dates: \<open>Utilidades\<close> of \<open>nucleo_sistema.py\<close>\<close>

text \<open>
  The only exception the modelled code can raise is the \<open>ValueError\<close> of
  \<open>datetime.strptime\<close>.
\<close>

datatype excepcion = ValueError

text \<open>
  A calendar date \<open>(year, month, day)\<close>. Python compares \<open>date\<close> objects by year, then
  month, then day, which is the lexicographic order of the triple.
\<close>

type_synonym fecha = "nat \<times> nat \<times> nat"

definition es_digito :: "char \<Rightarrow> bool" where
  "es_digito c = (c \<in> set ''0123456789'')"

definition valor_digito :: "char \<Rightarrow> nat" where
  "valor_digito c = of_char c - 48"

definition es_bisiesto :: "nat \<Rightarrow> bool" where
  "es_bisiesto y = (y mod 4 = 0 \<and> (y mod 100 \<noteq> 0 \<or> y mod 400 = 0))"

definition dias_del_mes :: "nat \<Rightarrow> nat \<Rightarrow> nat" where
  "dias_del_mes y m =
     (if m = 2 then (if es_bisiesto y then 29 else 28)
      else if m \<in> {4, 6, 9, 11} then 30 else 31)"

text \<open>
  The library call \<open>datetime.strptime(s, "%Y-%m-%d")\<close> on ASCII text, \<open>None\<close> standing
  for its \<open>ValueError\<close>. The format is matched as the regular expression
  \<^verbatim>\<open>(\d\d\d\d)-(1[0-2]|0[1-9]|[1-9])-(3[0-1]|[1-2]\d|0[1-9]|[1-9]| [1-9])\<close>
  (first alternative that matches), the whole text must be consumed, and the
  date must exist (year 1 to 9999, day within the month).
\<close>

fun leer_mes :: "string \<Rightarrow> (nat \<times> string) option" where
  "leer_mes [] = None"
| "leer_mes [a] = (if es_digito a \<and> a \<noteq> CHR ''0'' then Some (valor_digito a, []) else None)"
| "leer_mes (a # b # r) =
     (if a = CHR ''1'' \<and> b \<in> set ''012'' then Some (10 + valor_digito b, r)
      else if a = CHR ''0'' \<and> es_digito b \<and> b \<noteq> CHR ''0'' then Some (valor_digito b, r)
      else if es_digito a \<and> a \<noteq> CHR ''0'' then Some (valor_digito a, b # r)
      else None)"

fun leer_dia :: "string \<Rightarrow> (nat \<times> string) option" where
  "leer_dia [] = None"
| "leer_dia [a] = (if es_digito a \<and> a \<noteq> CHR ''0'' then Some (valor_digito a, []) else None)"
| "leer_dia (a # b # r) =
     (if a = CHR ''3'' \<and> b \<in> set ''01'' then Some (30 + valor_digito b, r)
      else if a \<in> set ''12'' \<and> es_digito b then Some (10 * valor_digito a + valor_digito b, r)
      else if a = CHR ''0'' \<and> es_digito b \<and> b \<noteq> CHR ''0'' then Some (valor_digito b, r)
      else if es_digito a \<and> a \<noteq> CHR ''0'' then Some (valor_digito a, b # r)
      else if a = CHR '' '' \<and> es_digito b \<and> b \<noteq> CHR ''0'' then Some (valor_digito b, r)
      else None)"

definition crear_fecha :: "nat \<Rightarrow> nat \<Rightarrow> nat \<Rightarrow> fecha option" where
  "crear_fecha y m d =
     (if 1 \<le> y \<and> y \<le> 9999 \<and> 1 \<le> m \<and> m \<le> 12 \<and> 1 \<le> d \<and> d \<le> dias_del_mes y m
      then Some (y, m, d) else None)"

fun strptime :: "string \<Rightarrow> fecha option" where
  "strptime (y1 # y2 # y3 # y4 # g # r) =
     (if es_digito y1 \<and> es_digito y2 \<and> es_digito y3 \<and> es_digito y4 \<and> g = CHR ''-'' then
        (case leer_mes r of
           None \<Rightarrow> None
         | Some (m, r2) \<Rightarrow>
            (case r2 of
               [] \<Rightarrow> None
             | g2 # r3 \<Rightarrow>
                (if g2 = CHR ''-'' then
                   (case leer_dia r3 of
                      Some (d, []) \<Rightarrow>
                        crear_fecha (1000 * valor_digito y1 + 100 * valor_digito y2
                                     + 10 * valor_digito y3 + valor_digito y4) m d
                    | _ \<Rightarrow> None)
                 else None)))
      else None)"
| "strptime _ = None"

definition validar_fecha :: "string \<Rightarrow> bool" where
  "validar_fecha texto_fecha = (strptime texto_fecha \<noteq> None)"

definition comparar_fechas :: "string \<Rightarrow> string \<Rightarrow> excepcion + int" where
  "comparar_fechas fecha1 fecha2 =
     (case strptime fecha1 of
        None \<Rightarrow> Inl ValueError
      | Some f1 \<Rightarrow>
         (case strptime fecha2 of
            None \<Rightarrow> Inl ValueError
          | Some f2 \<Rightarrow> Inr (if f1 < f2 then - 1 else if f1 > f2 then 1 else 0)))"

section \<open>Implements: \<open>modulo_implementos.py\<close>\<close>

text \<open>
  \<open>ElementoSistema\<close> is the base class of every entity and holds the identifier.
  \<open>precio_estimado\<close> is a Python float that the modelled code only stores and
  copies, so its carrier is left as the type parameter \<open>'f\<close>.
\<close>

record elemento_sistema =
  identificador :: string

record 'f implemento = elemento_sistema +
  titulo :: string
  tipo :: string
  stock :: int
  condicion :: string
  precio_estimado :: 'f

text \<open>
  \<open>Implemento.ajustar_stock\<close> mutates the object and returns a flag; the model returns
  the flag with the implement after the call.
\<close>

definition ajustar_stock :: "'f implemento \<Rightarrow> int \<Rightarrow> bool \<times> 'f implemento" where
  "ajustar_stock self cantidad =
     (let nuevo_stock = stock self + cantidad in
      if nuevo_stock < 0 then (False, self)
      else (True, self\<lparr>stock := nuevo_stock\<rparr>))"

definition hay_disponibilidad :: "'f implemento \<Rightarrow> int \<Rightarrow> bool" where
  "hay_disponibilidad self cantidad_solicitada =
     (stock self \<ge> cantidad_solicitada \<and> condicion self = ''disponible'')"

text \<open>
  The search methods (\<open>buscar_por_id\<close>, \<open>buscar\<close>, \<open>localizar\<close>) return a reference to
  the first object of the list whose identifier matches, and the callers mutate
  that object in place. The model rewrites the first matching element of the list.
\<close>

fun mutar_primero :: "('a \<Rightarrow> bool) \<Rightarrow> ('a \<Rightarrow> 'a) \<Rightarrow> 'a list \<Rightarrow> 'a list" where
  "mutar_primero p f [] = []"
| "mutar_primero p f (x # xs) = (if p x then f x # xs else x # mutar_primero p f xs)"

record 'f administrador_implementos =
  coleccion :: "'f implemento list"
  ids_en_uso :: "string set"
  categorias_registradas :: "string set"

definition buscar_por_id :: "'f administrador_implementos \<Rightarrow> string \<Rightarrow> 'f implemento option" where
  "buscar_por_id self ident = find (\<lambda>item. identificador item = ident) (coleccion self)"

text \<open>
  The dictionary \<open>nuevos_datos\<close> of \<open>modificar_existente\<close>: one optional entry for each
  key the method looks at. The stock and price entries already hold an \<open>int\<close> and a
  \<open>float\<close> when \<open>proceso_modificacion\<close> builds the dictionary, so \<open>int(...)\<close> and
  \<open>float(...)\<close> return them as they are.
\<close>

record 'f nuevos_datos =
  nd_titulo :: "string option"
  nd_tipo :: "string option"
  nd_stock :: "int option"
  nd_condicion :: "string option"
  nd_precio_estimado :: "'f option"

definition aplicar_datos :: "'f nuevos_datos \<Rightarrow> 'f implemento \<Rightarrow> 'f implemento" where
  "aplicar_datos datos implemento =
     (let i1 = (case nd_titulo datos of None \<Rightarrow> implemento | Some v \<Rightarrow> implemento\<lparr>titulo := v\<rparr>);
          i2 = (case nd_tipo datos of None \<Rightarrow> i1 | Some v \<Rightarrow> i1\<lparr>tipo := v\<rparr>);
          i3 = (case nd_stock datos of None \<Rightarrow> i2 | Some v \<Rightarrow> i2\<lparr>stock := v\<rparr>);
          i4 = (case nd_condicion datos of None \<Rightarrow> i3 | Some v \<Rightarrow> i3\<lparr>condicion := v\<rparr>)
      in (case nd_precio_estimado datos of None \<Rightarrow> i4 | Some v \<Rightarrow> i4\<lparr>precio_estimado := v\<rparr>))"

definition modificar_existente ::
  "'f administrador_implementos \<Rightarrow> string \<Rightarrow> 'f nuevos_datos
    \<Rightarrow> bool \<times> 'f administrador_implementos" where
  "modificar_existente self ident datos =
     (case buscar_por_id self ident of
        None \<Rightarrow> (False, self)
      | Some implemento \<Rightarrow>
          (True, self\<lparr>
             coleccion := mutar_primero (\<lambda>item. identificador item = ident)
                            (aplicar_datos datos) (coleccion self),
             categorias_registradas :=
               (case nd_tipo datos of
                  None \<Rightarrow> categorias_registradas self
                | Some v \<Rightarrow> insert v (categorias_registradas self))\<rparr>))"

section \<open>Text input: \<open>str.strip\<close>, \<open>str.split\<close> and \<open>int\<close>\<close>

text \<open>
  Python's whitespace within ASCII: tab to carriage return, the four separators
  \<open>0x1C\<close> to \<open>0x1F\<close>, and the space.
\<close>

definition es_espacio :: "char \<Rightarrow> bool" where
  "es_espacio c = (let n = (of_char c :: nat) in (9 \<le> n \<and> n \<le> 13) \<or> (28 \<le> n \<and> n \<le> 32))"

definition strip :: "string \<Rightarrow> string" where
  "strip s = rev (dropWhile es_espacio (rev (dropWhile es_espacio s)))"

fun split_por :: "char \<Rightarrow> string \<Rightarrow> string list" where
  "split_por c [] = [[]]"
| "split_por c (x # xs) =
     (if x = c then [] # split_por c xs
      else (case split_por c xs of
              [] \<Rightarrow> [[x]]
            | p # ps \<Rightarrow> (x # p) # ps))"

text \<open>
  The library call \<open>int(s)\<close> on ASCII text, \<open>None\<close> standing for its \<open>ValueError\<close>.
  Unlike \<open>str.strip\<close>, \<open>int\<close> skips only the whitespace of C (tab to carriage return,
  and the space) around the number. Then come an optional sign and decimal
  digits, where single underscores may separate digits. A text of more than
  4300 digits is refused (the interpreter's default limit,
  \<open>sys.get_int_max_str_digits()\<close>).
\<close>

definition es_espacio_c :: "char \<Rightarrow> bool" where
  "es_espacio_c c = (let n = (of_char c :: nat) in (9 \<le> n \<and> n \<le> 13) \<or> n = 32)"

fun leer_digitos :: "nat \<Rightarrow> string \<Rightarrow> nat option" where
  "leer_digitos acc [] = Some acc"
| "leer_digitos acc [c] = (if es_digito c then Some (10 * acc + valor_digito c) else None)"
| "leer_digitos acc (c # d # r) =
     (if es_digito c then leer_digitos (10 * acc + valor_digito c) (d # r)
      else if c = CHR ''_'' \<and> es_digito d then leer_digitos (10 * acc + valor_digito d) r
      else None)"

definition py_int :: "string \<Rightarrow> int option" where
  "py_int s =
     (let t = rev (dropWhile es_espacio_c (rev (dropWhile es_espacio_c s)));
          negativo = (case t of [] \<Rightarrow> False | c # r \<Rightarrow> c = CHR ''-'');
          u = (case t of [] \<Rightarrow> [] | c # r \<Rightarrow> if c = CHR ''-'' \<or> c = CHR ''+'' then r else t)
      in (case u of
            [] \<Rightarrow> None
          | c # r \<Rightarrow>
              (if es_digito c then
                 (case leer_digitos (valor_digito c) r of
                    None \<Rightarrow> None
                  | Some n \<Rightarrow>
                      if length (filter es_digito u) > 4300 then None
                      else Some (if negativo then - int n else int n))
               else None)))"

section \<open>Messages, and the edit screen of \<open>modulo_implementos.py\<close>\<close>

text \<open>The final message each screen prints, which tells the outcomes apart.\<close>

datatype mensaje =
    IdYaExiste
  | MiembroNoEncontrado
  | ImplementoNoEncontrado
  | CantidadInvalida
  | DebeIngresarNumero
  | StockInsuficiente int
  | FormatoFechaInvalido
  | AsignacionRegistrada
  | ErrorAlCrear
  | NoEncontradaOYaProcesada
  | DevolucionProcesada
  | ErrorAlProcesarDevolucion
  | NoEncontradaONoActiva
  | AsignacionCancelada
  | ErrorAlCancelar
  | FechaInvalida
  | FechaDebeSerPosterior
  | FechaExtendida
  | ImplementoActualizado
  | ErrorAlActualizar

text \<open>
  \<open>InterfazImplementos.proceso_modificacion\<close>. The parameters are the texts read from
  the console (after \<open>.strip()\<close>); \<open>py_float\<close> stands for the library call \<open>float(s)\<close>,
  \<open>None\<close> for its \<open>ValueError\<close>.
\<close>

definition estados_map :: "string \<Rightarrow> string option" where
  "estados_map opcion =
     (if opcion = ''1'' then Some ''disponible''
      else if opcion = ''2'' then Some ''prestado''
      else if opcion = ''3'' then Some [CHR ''d'', CHR ''a'', CHR 0xC3, CHR 0xB1, CHR ''a'', CHR ''d'', CHR ''o'']
      else if opcion = ''4'' then Some ''mantenimiento''
      else None)"

definition proceso_modificacion ::
  "(string \<Rightarrow> 'f option) \<Rightarrow> 'f administrador_implementos \<Rightarrow> string \<Rightarrow> string \<Rightarrow> string
    \<Rightarrow> string \<Rightarrow> string \<Rightarrow> string \<Rightarrow> mensaje \<times> 'f administrador_implementos" where
  "proceso_modificacion py_float admin id_modificar nuevo_nombre nueva_categoria
       nuevo_stock_str opcion_estado nuevo_valor_str =
     (case buscar_por_id admin id_modificar of
        None \<Rightarrow> (ImplementoNoEncontrado, admin)
      | Some implemento \<Rightarrow>
          (let nuevo_stock = (if nuevo_stock_str \<noteq> [] then py_int nuevo_stock_str else None);
               nuevo_estado = estados_map opcion_estado;
               nuevo_valor = (if nuevo_valor_str \<noteq> [] then py_float nuevo_valor_str else None);
               datos_actualizados = \<lparr>
                 nd_titulo = (if nuevo_nombre \<noteq> [] then Some nuevo_nombre else None),
                 nd_tipo = (if nueva_categoria \<noteq> [] then Some nueva_categoria else None),
                 nd_stock = nuevo_stock,
                 nd_condicion = nuevo_estado,
                 nd_precio_estimado = nuevo_valor\<rparr>;
               (ok, admin') = modificar_existente admin id_modificar datos_actualizados
           in (if ok then ImplementoActualizado else ErrorAlActualizar, admin')))"

section \<open>Members: \<open>modulo_miembros.py\<close>\<close>

record miembro = elemento_sistema +
  nombres :: string
  apellidos :: string
  telefono :: string
  ubicacion :: string
  rol :: string

record controlador_miembros =
  registro :: "miembro list"
  codigos_usados :: "string set"

definition localizar :: "controlador_miembros \<Rightarrow> string \<Rightarrow> miembro option" where
  "localizar self ident = find (\<lambda>persona. identificador persona = ident) (registro self)"

section \<open>Assignments: \<open>modulo_asignaciones.py\<close>\<close>

record asignacion = elemento_sistema +
  codigo_miembro :: string
  codigo_implemento :: string
  unidades :: int
  fecha_salida :: string
  fecha_retorno :: string
  estado :: string

text \<open>
  \<open>Asignacion.esta_vencido\<close>. The current date comes from the clock as the text
  \<open>obtener_fecha_actual()\<close> returns; it is the parameter \<open>hoy\<close>.
\<close>

definition esta_vencido :: "string \<Rightarrow> asignacion \<Rightarrow> excepcion + bool" where
  "esta_vencido hoy self =
     (if estado self \<noteq> ''activo'' then Inr False
      else (case comparar_fechas hoy (fecha_retorno self) of
              Inl e \<Rightarrow> Inl e
            | Inr c \<Rightarrow> Inr (c > 0)))"

record gestor_asignaciones =
  lista :: "asignacion list"
  ids_usados :: "string set"

text \<open>
  \<open>GestorAsignaciones._cargar\<close>, over the lines of the file: a line with seven
  comma-separated fields whose fourth field \<open>int\<close> accepts is appended; every other
  line is skipped.
\<close>

definition cargar_linea :: "gestor_asignaciones \<Rightarrow> string \<Rightarrow> gestor_asignaciones" where
  "cargar_linea self linea =
     (case split_por (CHR '','') (strip linea) of
        [p0, p1, p2, p3, p4, p5, p6] \<Rightarrow>
          (case py_int p3 of
             None \<Rightarrow> self
           | Some n \<Rightarrow>
               self\<lparr>lista := lista self @
                       [\<lparr>identificador = p0, codigo_miembro = p1, codigo_implemento = p2,
                         unidades = n, fecha_salida = p4, fecha_retorno = p5, estado = p6\<rparr>],
                     ids_usados := insert p0 (ids_usados self)\<rparr>)
      | _ \<Rightarrow> self)"

definition cargar :: "string list \<Rightarrow> gestor_asignaciones" where
  "cargar lineas = foldl cargar_linea \<lparr>lista = [], ids_usados = {}\<rparr> lineas"

definition crear :: "gestor_asignaciones \<Rightarrow> asignacion \<Rightarrow> bool \<times> gestor_asignaciones" where
  "crear self asig =
     (if identificador asig \<in> ids_usados self then (False, self)
      else (True, self\<lparr>lista := lista self @ [asig],
                       ids_usados := insert (identificador asig) (ids_usados self)\<rparr>))"

definition buscar :: "gestor_asignaciones \<Rightarrow> string \<Rightarrow> asignacion option" where
  "buscar self ident = find (\<lambda>a. identificador a = ident) (lista self)"

definition obtener_todas :: "gestor_asignaciones \<Rightarrow> asignacion list" where
  "obtener_todas self = lista self"

definition obtener_activas :: "gestor_asignaciones \<Rightarrow> asignacion list" where
  "obtener_activas self = filter (\<lambda>a. estado a = ''activo'') (lista self)"

fun filtrar_vencidas :: "string \<Rightarrow> asignacion list \<Rightarrow> excepcion + asignacion list" where
  "filtrar_vencidas hoy [] = Inr []"
| "filtrar_vencidas hoy (a # r) =
     (case esta_vencido hoy a of
        Inl e \<Rightarrow> Inl e
      | Inr v \<Rightarrow>
          (case filtrar_vencidas hoy r of
             Inl e \<Rightarrow> Inl e
           | Inr vs \<Rightarrow> Inr (if v then a # vs else vs)))"

definition obtener_vencidas :: "string \<Rightarrow> gestor_asignaciones \<Rightarrow> excepcion + asignacion list" where
  "obtener_vencidas hoy self = filtrar_vencidas hoy (lista self)"

definition obtener_por_miembro :: "gestor_asignaciones \<Rightarrow> string \<Rightarrow> asignacion list" where
  "obtener_por_miembro self cod = filter (\<lambda>a. codigo_miembro a = cod) (lista self)"

section \<open>Assignment screens: \<open>interfaz_asignaciones.py\<close>\<close>

text \<open>
  \<open>PantallasAsignaciones\<close> holds the three managers. Each screen takes the texts
  typed at the console (identifiers and dates after \<open>.strip()\<close>, the quantity as
  typed) and returns the message it prints with the managers after the call.
  The log of \<open>RegistroActividad\<close> goes to files and is no part of this state.
\<close>

record 'f pantallas_asignaciones =
  gestor :: gestor_asignaciones
  admin_impl :: "'f administrador_implementos"
  ctrl_miembros :: controlador_miembros

definition proceso_creacion ::
  "'f pantallas_asignaciones \<Rightarrow> string \<Rightarrow> string \<Rightarrow> string \<Rightarrow> string \<Rightarrow> string \<Rightarrow> string
    \<Rightarrow> mensaje \<times> 'f pantallas_asignaciones" where
  "proceso_creacion self id_asig cod_miembro codigo_impl cantidad f_salida f_retorno =
     (if id_asig \<in> ids_usados (gestor self) then (IdYaExiste, self)
      else (case localizar (ctrl_miembros self) cod_miembro of
        None \<Rightarrow> (MiembroNoEncontrado, self)
      | Some miembro \<Rightarrow>
      (case buscar_por_id (admin_impl self) codigo_impl of
        None \<Rightarrow> (ImplementoNoEncontrado, self)
      | Some impl \<Rightarrow>
      (case py_int cantidad of
        None \<Rightarrow> (DebeIngresarNumero, self)
      | Some uds \<Rightarrow>
         if uds \<le> 0 then (CantidadInvalida, self)
         else if \<not> hay_disponibilidad impl uds then (StockInsuficiente (stock impl), self)
         else if \<not> validar_fecha f_salida \<or> \<not> validar_fecha f_retorno
           then (FormatoFechaInvalido, self)
         else
           (let asig = \<lparr>identificador = id_asig, codigo_miembro = cod_miembro,
                        codigo_implemento = codigo_impl, unidades = uds,
                        fecha_salida = f_salida, fecha_retorno = f_retorno,
                        estado = ''activo''\<rparr>;
                (ok, g) = crear (gestor self) asig
            in if ok then
                 (AsignacionRegistrada,
                  self\<lparr>gestor := g,
                       admin_impl := (admin_impl self)\<lparr>coleccion :=
                         mutar_primero (\<lambda>item. identificador item = codigo_impl)
                           (\<lambda>i. snd (ajustar_stock i (- uds)))
                           (coleccion (admin_impl self))\<rparr>\<rparr>)
               else (ErrorAlCrear, self\<lparr>gestor := g\<rparr>))))))"

definition proceso_devolucion ::
  "'f pantallas_asignaciones \<Rightarrow> string \<Rightarrow> mensaje \<times> 'f pantallas_asignaciones" where
  "proceso_devolucion self id_asig =
     (case buscar (gestor self) id_asig of
        None \<Rightarrow> (NoEncontradaOYaProcesada, self)
      | Some asig \<Rightarrow>
          if estado asig \<noteq> ''activo'' then (NoEncontradaOYaProcesada, self)
          else (case buscar_por_id (admin_impl self) (codigo_implemento asig) of
            None \<Rightarrow> (ErrorAlProcesarDevolucion, self)
          | Some impl \<Rightarrow>
              (DevolucionProcesada,
               self\<lparr>admin_impl := (admin_impl self)\<lparr>coleccion :=
                      mutar_primero (\<lambda>item. identificador item = codigo_implemento asig)
                        (\<lambda>i. snd (ajustar_stock i (unidades asig)))
                        (coleccion (admin_impl self))\<rparr>,
                    gestor := (gestor self)\<lparr>lista :=
                      mutar_primero (\<lambda>a. identificador a = id_asig)
                        (\<lambda>a. a\<lparr>estado := ''devuelto''\<rparr>) (lista (gestor self))\<rparr>\<rparr>)))"

definition proceso_cancelacion ::
  "'f pantallas_asignaciones \<Rightarrow> string \<Rightarrow> mensaje \<times> 'f pantallas_asignaciones" where
  "proceso_cancelacion self id_asig =
     (case buscar (gestor self) id_asig of
        None \<Rightarrow> (NoEncontradaONoActiva, self)
      | Some asig \<Rightarrow>
          if estado asig \<noteq> ''activo'' then (NoEncontradaONoActiva, self)
          else (case buscar_por_id (admin_impl self) (codigo_implemento asig) of
            None \<Rightarrow> (ErrorAlCancelar, self)
          | Some impl \<Rightarrow>
              (AsignacionCancelada,
               self\<lparr>admin_impl := (admin_impl self)\<lparr>coleccion :=
                      mutar_primero (\<lambda>item. identificador item = codigo_implemento asig)
                        (\<lambda>i. snd (ajustar_stock i (unidades asig)))
                        (coleccion (admin_impl self))\<rparr>,
                    gestor := (gestor self)\<lparr>lista :=
                      mutar_primero (\<lambda>a. identificador a = id_asig)
                        (\<lambda>a. a\<lparr>estado := ''cancelado''\<rparr>) (lista (gestor self))\<rparr>\<rparr>)))"

text \<open>
  \<open>proceso_extension\<close> compares the new date with the stored one through
  \<open>comparar_fechas\<close>, whose \<open>ValueError\<close> nothing catches: the result is the
  exception or the message with the state.
\<close>

definition proceso_extension ::
  "'f pantallas_asignaciones \<Rightarrow> string \<Rightarrow> string
    \<Rightarrow> excepcion + (mensaje \<times> 'f pantallas_asignaciones)" where
  "proceso_extension self id_asig nueva_fecha =
     (case buscar (gestor self) id_asig of
        None \<Rightarrow> Inr (NoEncontradaONoActiva, self)
      | Some asig \<Rightarrow>
          if estado asig \<noteq> ''activo'' then Inr (NoEncontradaONoActiva, self)
          else if \<not> validar_fecha nueva_fecha then Inr (FechaInvalida, self)
          else (case comparar_fechas nueva_fecha (fecha_retorno asig) of
            Inl e \<Rightarrow> Inl e
          | Inr c \<Rightarrow>
              if c \<le> 0 then Inr (FechaDebeSerPosterior, self)
              else Inr (FechaExtendida,
                     self\<lparr>gestor := (gestor self)\<lparr>lista :=
                       mutar_primero (\<lambda>a. identificador a = id_asig)
                         (\<lambda>a. a\<lparr>fecha_retorno := nueva_fecha\<rparr>) (lista (gestor self))\<rparr>\<rparr>)))"

text \<open>
  The menu loop \<open>ejecutar\<close>, for its options 2 to 5: each order carries the texts its
  screen reads. An exception that leaves a screen ends the program, so the run
  stops in the state reached.
\<close>

datatype orden =
    Crear string string string string string string
  | Devolver string
  | Cancelar string
  | Extender string string

fun opcion ::
  "'f pantallas_asignaciones \<Rightarrow> orden \<Rightarrow> excepcion + (mensaje \<times> 'f pantallas_asignaciones)" where
  "opcion self (Crear i m c q s r) = Inr (proceso_creacion self i m c q s r)"
| "opcion self (Devolver i) = Inr (proceso_devolucion self i)"
| "opcion self (Cancelar i) = Inr (proceso_cancelacion self i)"
| "opcion self (Extender i f) = proceso_extension self i f"

fun ejecutar ::
  "'f pantallas_asignaciones \<Rightarrow> orden list \<Rightarrow> excepcion option \<times> 'f pantallas_asignaciones" where
  "ejecutar self [] = (None, self)"
| "ejecutar self (x # xs) =
     (case opcion self x of
        Inl e \<Rightarrow> (Some e, self)
      | Inr (m, self') \<Rightarrow> ejecutar self' xs)"

section \<open>A scenario\<close>

text \<open>
  The scenario of the specification's examples: implement \<open>T1\<close> with stock 5 in
  condition \<open>disponible\<close>, member \<open>M1\<close>, and no assignment yet.
\<close>

abbreviation impl_T1 :: "unit implemento" where
  "impl_T1 \<equiv> \<lparr>identificador = ''T1'', titulo = ''Pala'', tipo = ''jardin'', stock = 5,
       condicion = ''disponible'', precio_estimado = ()\<rparr>"

abbreviation miembro_M1 :: miembro where
  "miembro_M1 \<equiv> \<lparr>identificador = ''M1'', nombres = ''Ana'', apellidos = ''Rojas'',
       telefono = ''555'', ubicacion = ''Casa 1'', rol = ''residente''\<rparr>"

abbreviation admin_T1 :: "unit administrador_implementos" where
  "admin_T1 \<equiv> \<lparr>coleccion = [impl_T1], ids_en_uso = {''T1''},
       categorias_registradas = {''jardin''}\<rparr>"

abbreviation sistema_T1 :: "unit pantallas_asignaciones" where
  "sistema_T1 \<equiv> \<lparr>gestor = \<lparr>lista = [], ids_usados = {}\<rparr>, admin_impl = admin_T1,
       ctrl_miembros = \<lparr>registro = [miembro_M1], codigos_usados = {''M1''}\<rparr>\<rparr>"

abbreviation asig_A3 :: asignacion where
  "asig_A3 \<equiv> \<lparr>identificador = ''A3'', codigo_miembro = ''M1'', codigo_implemento = ''T1'',
       unidades = 2, fecha_salida = ''2025-01-01'', fecha_retorno = ''2025-01-15'',
       estado = ''activo''\<rparr>"

abbreviation sistema_A3 :: "unit pantallas_asignaciones" where
  "sistema_A3 \<equiv> \<lparr>gestor = \<lparr>lista = [asig_A3], ids_usados = {''A3''}\<rparr>, admin_impl = admin_T1,
       ctrl_miembros = \<lparr>registro = [miembro_M1], codigos_usados = {''M1''}\<rparr>\<rparr>"

section \<open>Auxiliary facts\<close>

lemmas evaluar =
  es_digito_def valor_digito_def es_bisiesto_def dias_del_mes_def crear_fecha_def
  validar_fecha_def comparar_fechas_def ajustar_stock_def hay_disponibilidad_def
  buscar_por_id_def aplicar_datos_def modificar_existente_def es_espacio_def
  es_espacio_c_def strip_def
  py_int_def estados_map_def proceso_modificacion_def localizar_def esta_vencido_def
  cargar_linea_def cargar_def crear_def buscar_def obtener_vencidas_def
  proceso_creacion_def proceso_devolucion_def proceso_cancelacion_def
  proceso_extension_def Let_def

lemma length_mutar_primero: "length (mutar_primero p f xs) = length xs"
  by (induction xs) simp_all

lemma find_append_split:
  "find p (xs @ ys) = (case find p xs of None \<Rightarrow> find p ys | Some x \<Rightarrow> Some x)"
  by (induction xs) simp_all

lemma find_mutar_primero:
  assumes "\<And>x. p (f x) = p x"
  shows "find p (mutar_primero p f xs) = map_option f (find p xs)"
  using assms by (induction xs) simp_all

lemma mutar_primero_twice:
  assumes "\<And>x. p (f x) = p x"
  shows "mutar_primero p g (mutar_primero p f xs) = mutar_primero p (\<lambda>x. g (f x)) xs"
  using assms by (induction xs) simp_all

lemma mutar_primero_fix:
  "find p xs = Some x \<Longrightarrow> f x = x \<Longrightarrow> mutar_primero p f xs = xs"
  by (induction xs) (simp_all split: if_splits)

lemma mutar_primero_index:
  "find p xs = Some x \<Longrightarrow>
   \<exists>k<length xs. xs ! k = x \<and> (\<forall>f. mutar_primero p f xs = xs[k := f x])"
proof (induction xs)
  case Nil
  then show ?case by simp
next
  case (Cons y ys)
  show ?case
  proof (cases "p y")
    case True
    with Cons.prems have "y = x" by simp
    with True have "(y # ys) ! 0 = x
        \<and> (\<forall>f. mutar_primero p f (y # ys) = (y # ys)[0 := f x])" by simp
    then show ?thesis by blast
  next
    case False
    with Cons.prems have "find p ys = Some x" by simp
    from Cons.IH [OF this] obtain k where k: "k < length ys" "ys ! k = x"
      "\<forall>f. mutar_primero p f ys = ys[k := f x]" by blast
    with False have "Suc k < length (y # ys) \<and> (y # ys) ! Suc k = x
        \<and> (\<forall>f. mutar_primero p f (y # ys) = (y # ys)[Suc k := f x])" by simp
    then show ?thesis by blast
  qed
qed

lemma mutar_primero_keeps:
  "find p xs = Some x \<Longrightarrow> q x \<Longrightarrow> \<not> q (xs ! k) \<Longrightarrow> k < length xs
   \<Longrightarrow> mutar_primero p f xs ! k = xs ! k"
proof (induction xs arbitrary: k)
  case Nil
  then show ?case by simp
next
  case (Cons y ys)
  show ?case
  proof (cases "p y")
    case True
    with Cons.prems have "y = x" by simp
    with Cons.prems have "k \<noteq> 0" by (cases k) auto
    with True show ?thesis by (cases k) simp_all
  next
    case False
    with Cons.prems have fy: "find p ys = Some x" by simp
    show ?thesis
    proof (cases k)
      case 0
      with False show ?thesis by simp
    next
      case (Suc j)
      with Cons.prems have "\<not> q (ys ! j)" "j < length ys" by simp_all
      from Cons.IH [OF fy Cons.prems(2) this] False Suc show ?thesis by simp
    qed
  qed
qed

lemma stock_ajustar_stock: "0 \<le> stock i \<Longrightarrow> 0 \<le> stock (snd (ajustar_stock i d))"
  by (simp add: ajustar_stock_def Let_def)

lemma identificador_ajustar_stock: "identificador (snd (ajustar_stock i d)) = identificador i"
  by (simp add: ajustar_stock_def Let_def)

lemma comparar_fechas_Some:
  "strptime f1 = Some a \<Longrightarrow> strptime f2 = Some b \<Longrightarrow>
   comparar_fechas f1 f2 = Inr (if a < b then - 1 else if b < a then 1 else 0)"
  by (simp add: comparar_fechas_def)

lemma ajustar_ida_vuelta:
  "0 < u \<Longrightarrow> u \<le> stock impl \<Longrightarrow>
   snd (ajustar_stock (snd (ajustar_stock impl (- u))) u) = impl"
  by (simp add: ajustar_stock_def Let_def)

text \<open>
  Every identifier of the list of assignments is in \<open>ids_usados\<close>: so it is after
  \<open>_cargar\<close>, and every screen keeps it so.
\<close>

lemma ids_cargar_linea:
  "\<forall>a\<in>set (lista g). identificador a \<in> ids_usados g \<Longrightarrow>
   \<forall>a\<in>set (lista (cargar_linea g l)). identificador a \<in> ids_usados (cargar_linea g l)"
  by (auto simp: cargar_linea_def split: list.splits option.splits)

lemma ids_foldl_cargar:
  "\<forall>a\<in>set (lista g). identificador a \<in> ids_usados g \<Longrightarrow>
   \<forall>a\<in>set (lista (foldl cargar_linea g ls)). identificador a \<in> ids_usados (foldl cargar_linea g ls)"
  by (induction ls arbitrary: g) (simp_all add: ids_cargar_linea)

lemma ids_cargar: "\<forall>a\<in>set (lista (cargar ls)). identificador a \<in> ids_usados (cargar ls)"
  unfolding cargar_def by (rule ids_foldl_cargar) simp

lemma identificador_mutar_primero:
  "(\<And>x. identificador (f x) = identificador x) \<Longrightarrow>
   map identificador (mutar_primero p f xs) = map identificador xs"
  by (induction xs) simp_all

lemma ids_opcion:
  assumes inv: "\<forall>a\<in>set (lista (gestor s)). identificador a \<in> ids_usados (gestor s)"
    and op: "opcion s x = Inr (m, s')"
  shows "\<forall>a\<in>set (lista (gestor s')). identificador a \<in> ids_usados (gestor s')"
proof (cases x)
  case (Crear i cm ci q fs fr)
  with inv op show ?thesis
    by (auto simp: proceso_creacion_def crear_def Let_def split: option.splits if_splits)
next
  case (Devolver i)
  with op have "map identificador (lista (gestor s')) = map identificador (lista (gestor s))
      \<and> ids_usados (gestor s') = ids_usados (gestor s)"
    by (auto simp: proceso_devolucion_def identificador_mutar_primero
        split: option.splits if_splits)
  then have "set (map identificador (lista (gestor s'))) \<subseteq> ids_usados (gestor s')"
    using inv by auto
  then show ?thesis by auto
next
  case (Cancelar i)
  with op have "map identificador (lista (gestor s')) = map identificador (lista (gestor s))
      \<and> ids_usados (gestor s') = ids_usados (gestor s)"
    by (auto simp: proceso_cancelacion_def identificador_mutar_primero
        split: option.splits if_splits)
  then have "set (map identificador (lista (gestor s'))) \<subseteq> ids_usados (gestor s')"
    using inv by auto
  then show ?thesis by auto
next
  case (Extender i f)
  with op have "map identificador (lista (gestor s')) = map identificador (lista (gestor s))
      \<and> ids_usados (gestor s') = ids_usados (gestor s)"
    by (auto simp: proceso_extension_def identificador_mutar_primero
        split: option.splits if_splits sum.splits)
  then have "set (map identificador (lista (gestor s'))) \<subseteq> ids_usados (gestor s')"
    using inv by auto
  then show ?thesis by auto
qed

lemma ids_ejecutar:
  assumes "\<forall>a\<in>set (lista (gestor s)). identificador a \<in> ids_usados (gestor s)"
  shows "\<forall>a\<in>set (lista (gestor (snd (ejecutar s ords)))).
           identificador a \<in> ids_usados (gestor (snd (ejecutar s ords)))"
  using assms
proof (induction ords arbitrary: s)
  case Nil
  then show ?case by simp
next
  case (Cons x xs)
  show ?case
  proof (cases "opcion s x")
    case (Inl e)
    with Cons.prems show ?thesis by simp
  next
    case (Inr r)
    obtain m s' where r: "r = (m, s')" by (cases r)
    from Cons.IH [OF ids_opcion [OF Cons.prems Inr [unfolded r]]] Inr r show ?thesis by simp
  qed
qed

text \<open>
  The loan screens change the collection of implements only by \<open>ajustar_stock\<close> on
  one implement, so no run of them makes a stock negative.
\<close>

lemma no_negativo_mutar:
  assumes "\<forall>i\<in>set xs. 0 \<le> stock i"
  shows "\<forall>i\<in>set (mutar_primero p (\<lambda>i. snd (ajustar_stock i d)) xs). 0 \<le> stock i"
  using assms by (induction xs) (simp_all add: stock_ajustar_stock)

lemma opcion_coleccion:
  assumes "opcion s x = Inr (m, s')"
  shows "coleccion (admin_impl s') = coleccion (admin_impl s)
       \<or> (\<exists>cod d. coleccion (admin_impl s') =
             mutar_primero (\<lambda>item. identificador item = cod) (\<lambda>i. snd (ajustar_stock i d))
               (coleccion (admin_impl s)))"
proof (cases x)
  case (Crear i cm ci q fs fr)
  with assms have "coleccion (admin_impl s') = coleccion (admin_impl s)
      \<or> coleccion (admin_impl s') =
          mutar_primero (\<lambda>item. identificador item = ci)
            (\<lambda>i. snd (ajustar_stock i (- the (py_int q)))) (coleccion (admin_impl s))"
    by (auto simp: proceso_creacion_def crear_def Let_def split: option.splits if_splits)
  then show ?thesis by blast
next
  case (Devolver i)
  with assms have "coleccion (admin_impl s') = coleccion (admin_impl s)
      \<or> coleccion (admin_impl s') =
          mutar_primero (\<lambda>item. identificador item = codigo_implemento (the (buscar (gestor s) i)))
            (\<lambda>j. snd (ajustar_stock j (unidades (the (buscar (gestor s) i)))))
            (coleccion (admin_impl s))"
    by (auto simp: proceso_devolucion_def split: option.splits if_splits)
  then show ?thesis by blast
next
  case (Cancelar i)
  with assms have "coleccion (admin_impl s') = coleccion (admin_impl s)
      \<or> coleccion (admin_impl s') =
          mutar_primero (\<lambda>item. identificador item = codigo_implemento (the (buscar (gestor s) i)))
            (\<lambda>j. snd (ajustar_stock j (unidades (the (buscar (gestor s) i)))))
            (coleccion (admin_impl s))"
    by (auto simp: proceso_cancelacion_def split: option.splits if_splits)
  then show ?thesis by blast
next
  case (Extender i f)
  with assms have "coleccion (admin_impl s') = coleccion (admin_impl s)"
    by (auto simp: proceso_extension_def split: option.splits if_splits sum.splits)
  then show ?thesis by blast
qed

lemma ejecutar_no_negativo:
  assumes "\<forall>i\<in>set (coleccion (admin_impl s)). 0 \<le> stock i"
  shows "\<forall>i\<in>set (coleccion (admin_impl (snd (ejecutar s ords)))). 0 \<le> stock i"
  using assms
proof (induction ords arbitrary: s)
  case Nil
  then show ?case by simp
next
  case (Cons x xs)
  show ?case
  proof (cases "opcion s x")
    case (Inl e)
    with Cons.prems show ?thesis by simp
  next
    case (Inr r)
    obtain m s' where r: "r = (m, s')" by (cases r)
    from opcion_coleccion [OF Inr [unfolded r]] Cons.prems
    have "\<forall>i\<in>set (coleccion (admin_impl s')). 0 \<le> stock i"
      using no_negativo_mutar by fastforce
    from Cons.IH [OF this] Inr r show ?thesis by simp
  qed
qed

section \<open>Properties of the stock contract\<close>

text \<open>
  C2. For an implement with non-negative stock and any integer delta,
  \<open>ajustar_stock\<close> fails and leaves the implement as it was when stock + delta is
  negative, and otherwise succeeds and sets the stock to stock + delta. Over any
  sequence of calls starting from non-negative stock (each call acting on the
  implement the previous one left), the stock is never negative.
\<close>

theorem ajustar_stock_contract:
  assumes "0 \<le> stock i"
  shows "(stock i + d < 0 \<longrightarrow> ajustar_stock i d = (False, i))
       \<and> (\<not> stock i + d < 0 \<longrightarrow> ajustar_stock i d = (True, i\<lparr>stock := stock i + d\<rparr>))
       \<and> 0 \<le> stock (foldl (\<lambda>j e. snd (ajustar_stock j e)) i ds)"
proof -
  have seq: "0 \<le> stock (foldl (\<lambda>j e. snd (ajustar_stock j e)) j0 ds)" if "0 \<le> stock j0" for j0
    using that
  proof (induction ds arbitrary: j0)
    case Nil
    then show ?case by simp
  next
    case (Cons e es)
    have "0 \<le> stock (snd (ajustar_stock j0 e))"
      using Cons.prems by (simp add: ajustar_stock_def Let_def)
    then show ?case using Cons.IH by simp
  qed
  show ?thesis using seq [OF assms] by (simp add: ajustar_stock_def Let_def)
qed

theorem ajustar_stock_contract_witness:
  "0 \<le> stock impl_T1
   \<and> ajustar_stock impl_T1 (- 6) = (False, impl_T1)
   \<and> ajustar_stock impl_T1 (- 3) = (True, impl_T1\<lparr>stock := 2\<rparr>)
   \<and> 0 \<le> stock (foldl (\<lambda>j e. snd (ajustar_stock j e)) impl_T1 [- 3, - 4, 2, - 4])"
  using ajustar_stock_contract [of impl_T1 "- 6" "[- 3, - 4, 2, - 4]"]
    ajustar_stock_contract [of impl_T1 "- 3" "[]"]
  by simp

text \<open>
  C10. For an implement whose condition is \<open>disponible\<close>, \<open>hay_disponibilidad\<close> is
  true for every requested quantity not above the stock, zero and negative
  quantities included: the check itself asks for no positive quantity.
\<close>

theorem hay_disponibilidad_sin_positividad:
  assumes "condicion i = ''disponible''" and "q \<le> stock i"
  shows "hay_disponibilidad i q"
  using assms by (simp add: hay_disponibilidad_def)

theorem hay_disponibilidad_sin_positividad_witness:
  "condicion impl_T1 = ''disponible'' \<and> - 4 \<le> stock impl_T1
   \<and> hay_disponibilidad impl_T1 0 \<and> hay_disponibilidad impl_T1 (- 4)"
  using hay_disponibilidad_sin_positividad [of impl_T1 0]
    hay_disponibilidad_sin_positividad [of impl_T1 "- 4"]
  by simp

text \<open>
  C1. The claim asks for a stock that is never negative and changes only through
  \<open>ajustar_stock\<close>, which refuses a delta below zero. The edit screen breaks it:
  \<open>proceso_modificacion\<close> takes the text \<open>-3\<close> for the new stock, checking only that
  it is an integer, and \<open>modificar_existente\<close> stores it. The implement of the
  scenario, with stock 5, is left with stock -3; the delta -8 is one that
  \<open>ajustar_stock\<close> refuses. The registration screen of the same class refuses a
  negative quantity, and the loan screens keep every stock non-negative
  (\<open>ejecutar_no_negativo\<close>).
\<close>

theorem edicion_stock_negativo:
  "proceso_modificacion (\<lambda>t. None) admin_T1 ''T1'' [] [] ''-3'' [] []
     = (ImplementoActualizado, admin_T1\<lparr>coleccion := [impl_T1\<lparr>stock := - 3\<rparr>]\<rparr>)
   \<and> map stock (coleccion (snd
        (proceso_modificacion (\<lambda>t. None) admin_T1 ''T1'' [] [] ''-3'' [] []))) = [- 3]
   \<and> fst (ajustar_stock impl_T1 (- 8)) = False"
  by (simp add: evaluar)

section \<open>Properties of the assignment engine\<close>

text \<open>
  C5. \<open>esta_vencido\<close> answers true exactly when the status is \<open>activo\<close> and the
  reference date is strictly after the due date, both compared as calendar
  dates; for every record whose status is not \<open>activo\<close> it answers false whatever
  its dates are. It is a function of the reference date and the record alone and
  returns only the answer, so evaluating it changes nothing.
\<close>

theorem esta_vencido_iff:
  "(esta_vencido hoy a = Inr True) =
     (estado a = ''activo'' \<and>
      (\<exists>t d. strptime hoy = Some t \<and> strptime (fecha_retorno a) = Some d \<and> d < t))
   \<and> (estado a \<noteq> ''activo'' \<longrightarrow> esta_vencido hoy a = Inr False)"
  by (auto simp: esta_vencido_def comparar_fechas_def split: option.splits)

theorem esta_vencido_iff_witness:
  "esta_vencido ''2025-02-01'' asig_A3 = Inr True
   \<and> esta_vencido ''2025-01-15'' asig_A3 = Inr False
   \<and> estado (asig_A3\<lparr>estado := ''cancelado''\<rparr>) \<noteq> ''activo''
   \<and> esta_vencido ''2025-02-01'' (asig_A3\<lparr>estado := ''cancelado''\<rparr>) = Inr False"
  using esta_vencido_iff [of "''2025-02-01''" asig_A3]
    esta_vencido_iff [of "''2025-02-01''" "asig_A3\<lparr>estado := ''cancelado''\<rparr>"]
  by (simp add: evaluar)

text \<open>
  C3. \<open>proceso_creacion\<close> checks in this order: identifier already used, member
  unknown, implement unknown, quantity not positive, availability, date format.
  The first check that fails decides the message, whatever the later inputs
  are, and the state is returned as it was; the messages are pairwise
  different. So a quantity of 0 gives \<open>CantidadInvalida\<close>, and an unknown member
  gives \<open>MiembroNoEncontrado\<close> for every implement code, quantity and dates.
\<close>

theorem proceso_creacion_orden:
  "(id_asig \<in> ids_usados (gestor s) \<longrightarrow>
      proceso_creacion s id_asig cm ci q fs fr = (IdYaExiste, s))
   \<and> (id_asig \<notin> ids_usados (gestor s) \<and> localizar (ctrl_miembros s) cm = None \<longrightarrow>
      proceso_creacion s id_asig cm ci q fs fr = (MiembroNoEncontrado, s))
   \<and> (id_asig \<notin> ids_usados (gestor s) \<and> localizar (ctrl_miembros s) cm = Some mb
       \<and> buscar_por_id (admin_impl s) ci = None \<longrightarrow>
      proceso_creacion s id_asig cm ci q fs fr = (ImplementoNoEncontrado, s))
   \<and> (id_asig \<notin> ids_usados (gestor s) \<and> localizar (ctrl_miembros s) cm = Some mb
       \<and> buscar_por_id (admin_impl s) ci = Some impl \<and> py_int q = Some u \<and> u \<le> 0 \<longrightarrow>
      proceso_creacion s id_asig cm ci q fs fr = (CantidadInvalida, s))
   \<and> (id_asig \<notin> ids_usados (gestor s) \<and> localizar (ctrl_miembros s) cm = Some mb
       \<and> buscar_por_id (admin_impl s) ci = Some impl \<and> py_int q = Some u \<and> 0 < u
       \<and> \<not> hay_disponibilidad impl u \<longrightarrow>
      proceso_creacion s id_asig cm ci q fs fr = (StockInsuficiente (stock impl), s))
   \<and> (id_asig \<notin> ids_usados (gestor s) \<and> localizar (ctrl_miembros s) cm = Some mb
       \<and> buscar_por_id (admin_impl s) ci = Some impl \<and> py_int q = Some u \<and> 0 < u
       \<and> hay_disponibilidad impl u \<and> (\<not> validar_fecha fs \<or> \<not> validar_fecha fr) \<longrightarrow>
      proceso_creacion s id_asig cm ci q fs fr = (FormatoFechaInvalido, s))
   \<and> distinct [IdYaExiste, MiembroNoEncontrado, ImplementoNoEncontrado, CantidadInvalida,
        StockInsuficiente n, FormatoFechaInvalido, AsignacionRegistrada]
   \<and> (fst (proceso_creacion s id_asig cm ci q fs fr) \<noteq> AsignacionRegistrada \<longrightarrow>
        snd (proceso_creacion s id_asig cm ci q fs fr) = s)"
  by (simp add: proceso_creacion_def crear_def split: option.splits)

theorem proceso_creacion_orden_witness:
  "proceso_creacion sistema_A3 ''A3'' ''M9'' ''T9'' ''abc'' ''x'' ''y'' = (IdYaExiste, sistema_A3)
   \<and> proceso_creacion sistema_T1 ''A1'' ''M9'' ''T9'' ''abc'' ''x'' ''y''
        = (MiembroNoEncontrado, sistema_T1)
   \<and> proceso_creacion sistema_T1 ''A1'' ''M1'' ''T9'' ''abc'' ''x'' ''y''
        = (ImplementoNoEncontrado, sistema_T1)
   \<and> proceso_creacion sistema_T1 ''A1'' ''M1'' ''T1'' ''0'' ''x'' ''y''
        = (CantidadInvalida, sistema_T1)
   \<and> proceso_creacion sistema_T1 ''A1'' ''M1'' ''T1'' ''6'' ''x'' ''y''
        = (StockInsuficiente 5, sistema_T1)
   \<and> proceso_creacion sistema_T1 ''A1'' ''M1'' ''T1'' ''3'' ''2025-01-01'' ''2025-02-30''
        = (FormatoFechaInvalido, sistema_T1)"
  using proceso_creacion_orden [where s = sistema_A3 and id_asig = "''A3''" and cm = "''M9''"
      and ci = "''T9''" and q = "''abc''" and fs = "''x''" and fr = "''y''"]
    proceso_creacion_orden [where s = sistema_T1 and id_asig = "''A1''" and cm = "''M9''"
      and ci = "''T9''" and q = "''abc''" and fs = "''x''" and fr = "''y''"]
    proceso_creacion_orden [where s = sistema_T1 and id_asig = "''A1''" and cm = "''M1''"
      and ci = "''T9''" and q = "''abc''" and fs = "''x''" and fr = "''y''" and mb = miembro_M1]
    proceso_creacion_orden [where s = sistema_T1 and id_asig = "''A1''" and cm = "''M1''"
      and ci = "''T1''" and q = "''0''" and fs = "''x''" and fr = "''y''" and mb = miembro_M1
      and impl = impl_T1 and u = 0]
    proceso_creacion_orden [where s = sistema_T1 and id_asig = "''A1''" and cm = "''M1''"
      and ci = "''T1''" and q = "''6''" and fs = "''x''" and fr = "''y''" and mb = miembro_M1
      and impl = impl_T1 and u = 6]
    proceso_creacion_orden [where s = sistema_T1 and id_asig = "''A1''" and cm = "''M1''"
      and ci = "''T1''" and q = "''3''" and fs = "''2025-01-01''" and fr = "''2025-02-30''"
      and mb = miembro_M1 and impl = impl_T1 and u = 3]
  by (simp add: evaluar)

text \<open>
  C6. \<open>proceso_extension\<close> refuses when no assignment has the identifier or the one
  found is not \<open>activo\<close>, refuses a text that is no calendar date, and refuses a
  new date that is not strictly after the stored due date (an equal date is
  refused). For a strictly later date it succeeds and the assignment found now
  holds the new text as its due date; its status and every other field, and
  the rest of the state, are as before.
\<close>

theorem proceso_extension_spec:
  "(buscar (gestor s) i = None \<longrightarrow> proceso_extension s i nueva = Inr (NoEncontradaONoActiva, s))
   \<and> (buscar (gestor s) i = Some a \<and> estado a \<noteq> ''activo'' \<longrightarrow>
        proceso_extension s i nueva = Inr (NoEncontradaONoActiva, s))
   \<and> (buscar (gestor s) i = Some a \<and> estado a = ''activo'' \<and> \<not> validar_fecha nueva \<longrightarrow>
        proceso_extension s i nueva = Inr (FechaInvalida, s))
   \<and> (buscar (gestor s) i = Some a \<and> estado a = ''activo'' \<and> strptime nueva = Some n
       \<and> strptime (fecha_retorno a) = Some d \<and> n \<le> d \<longrightarrow>
        proceso_extension s i nueva = Inr (FechaDebeSerPosterior, s))
   \<and> (buscar (gestor s) i = Some a \<and> estado a = ''activo'' \<and> strptime nueva = Some n
       \<and> strptime (fecha_retorno a) = Some d \<and> d < n \<longrightarrow>
        (\<exists>k<length (lista (gestor s)). lista (gestor s) ! k = a \<and>
           proceso_extension s i nueva =
             Inr (FechaExtendida, s\<lparr>gestor := (gestor s)\<lparr>lista :=
                    (lista (gestor s))[k := a\<lparr>fecha_retorno := nueva\<rparr>]\<rparr>\<rparr>)))"
proof -
  have ok: "\<exists>k<length (lista (gestor s)). lista (gestor s) ! k = a \<and>
           proceso_extension s i nueva =
             Inr (FechaExtendida, s\<lparr>gestor := (gestor s)\<lparr>lista :=
                    (lista (gestor s))[k := a\<lparr>fecha_retorno := nueva\<rparr>]\<rparr>\<rparr>)"
    if b: "buscar (gestor s) i = Some a" and e: "estado a = ''activo''"
      and n: "strptime nueva = Some n" and d: "strptime (fecha_retorno a) = Some d" and "d < n"
  proof -
    from b have "find (\<lambda>x. identificador x = i) (lista (gestor s)) = Some a"
      by (simp add: buscar_def)
    from mutar_primero_index [OF this]
    obtain k where k: "k < length (lista (gestor s))" "lista (gestor s) ! k = a"
      "\<forall>f. mutar_primero (\<lambda>x. identificador x = i) f (lista (gestor s))
        = (lista (gestor s))[k := f a]" by blast
    have "proceso_extension s i nueva =
             Inr (FechaExtendida, s\<lparr>gestor := (gestor s)\<lparr>lista :=
                    (lista (gestor s))[k := a\<lparr>fecha_retorno := nueva\<rparr>]\<rparr>\<rparr>)"
      using b e n d \<open>d < n\<close> k(3)
      by (simp add: proceso_extension_def validar_fecha_def comparar_fechas_Some)
    with k show ?thesis by blast
  qed
  have nl: "proceso_extension s i nueva = Inr (FechaDebeSerPosterior, s)"
    if "buscar (gestor s) i = Some a" "estado a = ''activo''" "strptime nueva = Some n"
       "strptime (fecha_retorno a) = Some d" "n \<le> d"
    using that by (auto simp: proceso_extension_def validar_fecha_def comparar_fechas_Some)
  show ?thesis using ok nl by (simp add: proceso_extension_def)
qed

theorem proceso_extension_spec_witness:
  "proceso_extension sistema_A3 ''A9'' ''2025-01-20'' = Inr (NoEncontradaONoActiva, sistema_A3)
   \<and> proceso_extension
        (sistema_A3\<lparr>gestor := \<lparr>lista = [asig_A3\<lparr>estado := ''devuelto''\<rparr>], ids_usados = {''A3''}\<rparr>\<rparr>)
        ''A3'' ''2025-01-20''
       = Inr (NoEncontradaONoActiva,
           sistema_A3\<lparr>gestor := \<lparr>lista = [asig_A3\<lparr>estado := ''devuelto''\<rparr>],
             ids_usados = {''A3''}\<rparr>\<rparr>)
   \<and> proceso_extension sistema_A3 ''A3'' ''2025-01-32'' = Inr (FechaInvalida, sistema_A3)
   \<and> proceso_extension sistema_A3 ''A3'' ''2025-01-15'' = Inr (FechaDebeSerPosterior, sistema_A3)
   \<and> proceso_extension sistema_A3 ''A3'' ''2025-01-16''
       = Inr (FechaExtendida, sistema_A3\<lparr>gestor :=
            \<lparr>lista = [asig_A3\<lparr>fecha_retorno := ''2025-01-16''\<rparr>], ids_usados = {''A3''}\<rparr>\<rparr>)"
  using proceso_extension_spec [where s = sistema_A3 and i = "''A9''" and nueva = "''2025-01-20''"]
    proceso_extension_spec [where s = "sistema_A3\<lparr>gestor :=
        \<lparr>lista = [asig_A3\<lparr>estado := ''devuelto''\<rparr>], ids_usados = {''A3''}\<rparr>\<rparr>"
      and i = "''A3''" and nueva = "''2025-01-20''" and a = "asig_A3\<lparr>estado := ''devuelto''\<rparr>"]
    proceso_extension_spec [where s = sistema_A3 and i = "''A3''" and nueva = "''2025-01-32''"
      and a = asig_A3]
    proceso_extension_spec [where s = sistema_A3 and i = "''A3''" and nueva = "''2025-01-15''"
      and a = asig_A3 and n = "(2025, 1, 15)" and d = "(2025, 1, 15)"]
    proceso_extension_spec [where s = sistema_A3 and i = "''A3''" and nueva = "''2025-01-16''"
      and a = asig_A3 and n = "(2025, 1, 16)" and d = "(2025, 1, 15)"]
  by (simp add: evaluar)

text \<open>
  Return and cancellation of an active assignment. When its implement code
  matches no stored implement, the screen prints its error and returns the
  state as it was: the status stays \<open>activo\<close> and no stock moves. When the
  implement is found and its stock plus the quantity is not negative (so
  whenever the stock is not negative and the quantity is positive), its stock
  grows by the quantity and the status becomes \<open>devuelto\<close>, respectively
  \<open>cancelado\<close>; nothing else changes.
\<close>

theorem devolucion_cancelacion_spec:
  "(buscar (gestor s) i = Some a \<and> estado a = ''activo''
      \<and> buscar_por_id (admin_impl s) (codigo_implemento a) = None \<longrightarrow>
        proceso_devolucion s i = (ErrorAlProcesarDevolucion, s)
      \<and> proceso_cancelacion s i = (ErrorAlCancelar, s))
   \<and> (buscar (gestor s) i = Some a \<and> estado a = ''activo''
      \<and> buscar_por_id (admin_impl s) (codigo_implemento a) = Some impl
      \<and> 0 \<le> stock impl + unidades a \<longrightarrow>
        (\<exists>k j. k < length (lista (gestor s)) \<and> lista (gestor s) ! k = a
           \<and> j < length (coleccion (admin_impl s)) \<and> coleccion (admin_impl s) ! j = impl
           \<and> proceso_devolucion s i =
               (DevolucionProcesada,
                s\<lparr>admin_impl := (admin_impl s)\<lparr>coleccion :=
                     (coleccion (admin_impl s))[j := impl\<lparr>stock := stock impl + unidades a\<rparr>]\<rparr>,
                  gestor := (gestor s)\<lparr>lista :=
                     (lista (gestor s))[k := a\<lparr>estado := ''devuelto''\<rparr>]\<rparr>\<rparr>)
           \<and> proceso_cancelacion s i =
               (AsignacionCancelada,
                s\<lparr>admin_impl := (admin_impl s)\<lparr>coleccion :=
                     (coleccion (admin_impl s))[j := impl\<lparr>stock := stock impl + unidades a\<rparr>]\<rparr>,
                  gestor := (gestor s)\<lparr>lista :=
                     (lista (gestor s))[k := a\<lparr>estado := ''cancelado''\<rparr>]\<rparr>\<rparr>)))"
proof -
  have ok: "\<exists>k j. k < length (lista (gestor s)) \<and> lista (gestor s) ! k = a
           \<and> j < length (coleccion (admin_impl s)) \<and> coleccion (admin_impl s) ! j = impl
           \<and> proceso_devolucion s i =
               (DevolucionProcesada,
                s\<lparr>admin_impl := (admin_impl s)\<lparr>coleccion :=
                     (coleccion (admin_impl s))[j := impl\<lparr>stock := stock impl + unidades a\<rparr>]\<rparr>,
                  gestor := (gestor s)\<lparr>lista :=
                     (lista (gestor s))[k := a\<lparr>estado := ''devuelto''\<rparr>]\<rparr>\<rparr>)
           \<and> proceso_cancelacion s i =
               (AsignacionCancelada,
                s\<lparr>admin_impl := (admin_impl s)\<lparr>coleccion :=
                     (coleccion (admin_impl s))[j := impl\<lparr>stock := stock impl + unidades a\<rparr>]\<rparr>,
                  gestor := (gestor s)\<lparr>lista :=
                     (lista (gestor s))[k := a\<lparr>estado := ''cancelado''\<rparr>]\<rparr>\<rparr>)"
    if b: "buscar (gestor s) i = Some a" and e: "estado a = ''activo''"
      and bi: "buscar_por_id (admin_impl s) (codigo_implemento a) = Some impl"
      and st: "0 \<le> stock impl + unidades a"
  proof -
    from b have fa: "find (\<lambda>x. identificador x = i) (lista (gestor s)) = Some a"
      by (simp add: buscar_def)
    from bi have fi: "find (\<lambda>x. identificador x = codigo_implemento a) (coleccion (admin_impl s))
        = Some impl" by (simp add: buscar_por_id_def)
    from mutar_primero_index [OF fa] obtain k where k: "k < length (lista (gestor s))"
      "lista (gestor s) ! k = a"
      "\<forall>f. mutar_primero (\<lambda>x. identificador x = i) f (lista (gestor s))
        = (lista (gestor s))[k := f a]" by blast
    from mutar_primero_index [OF fi]
    obtain j where j: "j < length (coleccion (admin_impl s))"
      "coleccion (admin_impl s) ! j = impl"
      "\<forall>f. mutar_primero (\<lambda>x. identificador x = codigo_implemento a) f
         (coleccion (admin_impl s)) = (coleccion (admin_impl s))[j := f impl]" by blast
    from st have aj: "snd (ajustar_stock impl (unidades a)) = impl\<lparr>stock := stock impl + unidades a\<rparr>"
      by (simp add: ajustar_stock_def Let_def)
    have "proceso_devolucion s i =
               (DevolucionProcesada,
                s\<lparr>admin_impl := (admin_impl s)\<lparr>coleccion :=
                     (coleccion (admin_impl s))[j := impl\<lparr>stock := stock impl + unidades a\<rparr>]\<rparr>,
                  gestor := (gestor s)\<lparr>lista :=
                     (lista (gestor s))[k := a\<lparr>estado := ''devuelto''\<rparr>]\<rparr>\<rparr>)"
      using b e bi j(3) k(3) aj by (simp add: proceso_devolucion_def)
    moreover have "proceso_cancelacion s i =
               (AsignacionCancelada,
                s\<lparr>admin_impl := (admin_impl s)\<lparr>coleccion :=
                     (coleccion (admin_impl s))[j := impl\<lparr>stock := stock impl + unidades a\<rparr>]\<rparr>,
                  gestor := (gestor s)\<lparr>lista :=
                     (lista (gestor s))[k := a\<lparr>estado := ''cancelado''\<rparr>]\<rparr>\<rparr>)"
      using b e bi j(3) k(3) aj by (simp add: proceso_cancelacion_def)
    ultimately show ?thesis using k(1,2) j(1,2) by blast
  qed
  show ?thesis using ok by (simp add: proceso_devolucion_def proceso_cancelacion_def)
qed

theorem devolucion_cancelacion_spec_witness:
  "proceso_devolucion (sistema_A3\<lparr>admin_impl := admin_T1\<lparr>coleccion := []\<rparr>\<rparr>) ''A3''
     = (ErrorAlProcesarDevolucion, sistema_A3\<lparr>admin_impl := admin_T1\<lparr>coleccion := []\<rparr>\<rparr>)
   \<and> proceso_cancelacion (sistema_A3\<lparr>admin_impl := admin_T1\<lparr>coleccion := []\<rparr>\<rparr>) ''A3''
     = (ErrorAlCancelar, sistema_A3\<lparr>admin_impl := admin_T1\<lparr>coleccion := []\<rparr>\<rparr>)
   \<and> proceso_devolucion sistema_A3 ''A3''
     = (DevolucionProcesada,
        sistema_A3\<lparr>admin_impl := admin_T1\<lparr>coleccion := [impl_T1\<lparr>stock := 7\<rparr>]\<rparr>,
          gestor := \<lparr>lista = [asig_A3\<lparr>estado := ''devuelto''\<rparr>], ids_usados = {''A3''}\<rparr>\<rparr>)
   \<and> proceso_cancelacion sistema_A3 ''A3''
     = (AsignacionCancelada,
        sistema_A3\<lparr>admin_impl := admin_T1\<lparr>coleccion := [impl_T1\<lparr>stock := 7\<rparr>]\<rparr>,
          gestor := \<lparr>lista = [asig_A3\<lparr>estado := ''cancelado''\<rparr>], ids_usados = {''A3''}\<rparr>\<rparr>)"
  using devolucion_cancelacion_spec [where s = "sistema_A3\<lparr>admin_impl := admin_T1\<lparr>coleccion := []\<rparr>\<rparr>"
      and i = "''A3''" and a = asig_A3]
    devolucion_cancelacion_spec [where s = sistema_A3 and i = "''A3''" and a = asig_A3
      and impl = impl_T1]
  by (simp add: evaluar)

text \<open>
  C7. The claim asks that a return or cancellation whose implement exists adds
  the quantity to the stock and closes the assignment. Both screens call
  \<open>ajustar_stock\<close>, drop the flag it returns and set the status all the same. After
  the edit screen has taken the text \<open>-3\<close> for the stock of \<open>T1\<close>, returning or
  cancelling the assignment \<open>A3\<close> of 2 units closes it while the stock stays -3.
  Likewise for an assignment that \<open>_cargar\<close> read with the quantity -7: it is closed
  and the stock of \<open>T1\<close> stays 5.
\<close>

theorem devolucion_ajuste_rechazado:
  "snd (proceso_modificacion (\<lambda>t. None) admin_T1 ''T1'' [] [] ''-3'' [] [])
     = admin_T1\<lparr>coleccion := [impl_T1\<lparr>stock := - 3\<rparr>]\<rparr>
   \<and> fst (ajustar_stock (impl_T1\<lparr>stock := - 3\<rparr>) 2) = False
   \<and> proceso_devolucion
        (sistema_A3\<lparr>admin_impl :=
           snd (proceso_modificacion (\<lambda>t. None) admin_T1 ''T1'' [] [] ''-3'' [] [])\<rparr>) ''A3''
     = (DevolucionProcesada,
        sistema_A3\<lparr>admin_impl := admin_T1\<lparr>coleccion := [impl_T1\<lparr>stock := - 3\<rparr>]\<rparr>,
          gestor := \<lparr>lista = [asig_A3\<lparr>estado := ''devuelto''\<rparr>], ids_usados = {''A3''}\<rparr>\<rparr>)
   \<and> proceso_cancelacion
        (sistema_A3\<lparr>admin_impl :=
           snd (proceso_modificacion (\<lambda>t. None) admin_T1 ''T1'' [] [] ''-3'' [] [])\<rparr>) ''A3''
     = (AsignacionCancelada,
        sistema_A3\<lparr>admin_impl := admin_T1\<lparr>coleccion := [impl_T1\<lparr>stock := - 3\<rparr>]\<rparr>,
          gestor := \<lparr>lista = [asig_A3\<lparr>estado := ''cancelado''\<rparr>], ids_usados = {''A3''}\<rparr>\<rparr>)
   \<and> lista (cargar [''A7,M1,T1,-7,2025-01-01,2025-01-15,activo''])
     = [asig_A3\<lparr>identificador := ''A7'', unidades := - 7\<rparr>]
   \<and> proceso_devolucion
        (sistema_T1\<lparr>gestor := cargar [''A7,M1,T1,-7,2025-01-01,2025-01-15,activo'']\<rparr>) ''A7''
     = (DevolucionProcesada,
        sistema_T1\<lparr>gestor := \<lparr>lista = [asig_A3\<lparr>identificador := ''A7'', unidades := - 7,
             estado := ''devuelto''\<rparr>], ids_usados = {''A7''}\<rparr>\<rparr>)"
  by (simp add: evaluar)

text \<open>
  C4. In a state where every listed assignment has its identifier in
  \<open>ids_usados\<close>, a creation that succeeds takes the quantity from the implement's
  stock, and returning the new assignment gives the whole collection of
  implements back as it was before the creation. Cancelling instead of
  returning leaves the same collection.
\<close>

theorem crear_devolver_restituye:
  assumes inv: "\<forall>a\<in>set (lista (gestor s)). identificador a \<in> ids_usados (gestor s)"
    and cr: "proceso_creacion s i cm ci q fs fr = (AsignacionRegistrada, s1)"
  shows "(\<exists>impl u. buscar_por_id (admin_impl s) ci = Some impl \<and> py_int q = Some u
            \<and> 0 < u \<and> u \<le> stock impl
            \<and> buscar_por_id (admin_impl s1) ci = Some (impl\<lparr>stock := stock impl - u\<rparr>))
       \<and> fst (proceso_devolucion s1 i) = DevolucionProcesada
       \<and> coleccion (admin_impl (snd (proceso_devolucion s1 i))) = coleccion (admin_impl s)
       \<and> fst (proceso_cancelacion s1 i) = AsignacionCancelada
       \<and> coleccion (admin_impl (snd (proceso_cancelacion s1 i)))
           = coleccion (admin_impl (snd (proceso_devolucion s1 i)))"
proof -
  let ?P = "\<lambda>item::'a implemento. identificador item = ci"
  let ?col = "coleccion (admin_impl s)"
  from cr obtain impl u where nu: "i \<notin> ids_usados (gestor s)"
    and bi: "buscar_por_id (admin_impl s) ci = Some impl"
    and q: "py_int q = Some u" and u: "0 < u" and hd: "hay_disponibilidad impl u"
    and s1: "s1 = s\<lparr>gestor := (gestor s)\<lparr>lista := lista (gestor s) @
                   [\<lparr>identificador = i, codigo_miembro = cm, codigo_implemento = ci,
                     unidades = u, fecha_salida = fs, fecha_retorno = fr, estado = ''activo''\<rparr>],
                 ids_usados := insert i (ids_usados (gestor s))\<rparr>,
               admin_impl := (admin_impl s)\<lparr>coleccion :=
                   mutar_primero ?P (\<lambda>x. snd (ajustar_stock x (- u))) ?col\<rparr>\<rparr>"
    by (auto simp: proceso_creacion_def crear_def Let_def split: option.splits if_splits)
  let ?a = "\<lparr>identificador = i, codigo_miembro = cm, codigo_implemento = ci,
             unidades = u, fecha_salida = fs, fecha_retorno = fr, estado = ''activo''\<rparr>"
  from hd have le: "u \<le> stock impl" by (simp add: hay_disponibilidad_def)
  from bi have fi: "find ?P ?col = Some impl" by (simp add: buscar_por_id_def)
  from nu inv have "find (\<lambda>a. identificador a = i) (lista (gestor s)) = None"
    by (auto simp: find_None_iff)
  then have b1: "buscar (gestor s1) i = Some ?a"
    by (simp add: s1 buscar_def find_append_split)
  have f1: "find ?P (mutar_primero ?P (\<lambda>x. snd (ajustar_stock x (- u))) ?col)
      = Some (snd (ajustar_stock impl (- u)))"
    by (simp add: find_mutar_primero identificador_ajustar_stock fi)
  then have bi1: "buscar_por_id (admin_impl s1) ci = Some (snd (ajustar_stock impl (- u)))"
    by (simp add: s1 buscar_por_id_def)
  have vuelta: "mutar_primero ?P (\<lambda>x. snd (ajustar_stock x u))
        (mutar_primero ?P (\<lambda>x. snd (ajustar_stock x (- u))) ?col) = ?col"
    using fi u le
    by (simp add: mutar_primero_twice identificador_ajustar_stock mutar_primero_fix
        ajustar_ida_vuelta)
  have c1: "coleccion (admin_impl s1) = mutar_primero ?P (\<lambda>x. snd (ajustar_stock x (- u))) ?col"
    by (simp add: s1)
  have dv: "fst (proceso_devolucion s1 i) = DevolucionProcesada"
    "coleccion (admin_impl (snd (proceso_devolucion s1 i))) = ?col"
    using b1 bi1 vuelta c1 by (simp_all add: proceso_devolucion_def)
  have cn: "fst (proceso_cancelacion s1 i) = AsignacionCancelada"
    "coleccion (admin_impl (snd (proceso_cancelacion s1 i))) = ?col"
    using b1 bi1 vuelta c1 by (simp_all add: proceso_cancelacion_def)
  from le u have "snd (ajustar_stock impl (- u)) = impl\<lparr>stock := stock impl - u\<rparr>"
    by (simp add: ajustar_stock_def Let_def)
  with bi1 bi q u le dv cn show ?thesis by simp
qed

theorem crear_devolver_restituye_witness:
  "fst (proceso_creacion sistema_T1 ''A1'' ''M1'' ''T1'' ''3'' ''2025-01-01'' ''2025-01-10'')
       = AsignacionRegistrada
   \<and> map stock (coleccion (admin_impl (snd
        (proceso_creacion sistema_T1 ''A1'' ''M1'' ''T1'' ''3'' ''2025-01-01'' ''2025-01-10'')))) = [2]
   \<and> map stock (coleccion (admin_impl (snd (proceso_devolucion (snd
        (proceso_creacion sistema_T1 ''A1'' ''M1'' ''T1'' ''3'' ''2025-01-01'' ''2025-01-10''))
        ''A1'')))) = [5]
   \<and> map stock (coleccion (admin_impl (snd (proceso_cancelacion (snd
        (proceso_creacion sistema_T1 ''A1'' ''M1'' ''T1'' ''3'' ''2025-01-01'' ''2025-01-10''))
        ''A1'')))) = [5]"
  using crear_devolver_restituye [where s = sistema_T1 and i = "''A1''" and cm = "''M1''"
      and ci = "''T1''" and q = "''3''" and fs = "''2025-01-01''" and fr = "''2025-01-10''"
      and ?s1.0 = "snd (proceso_creacion sistema_T1 ''A1'' ''M1'' ''T1'' ''3''
         ''2025-01-01'' ''2025-01-10'')"]
  by (simp add: evaluar)

lemma opcion_no_activa:
  assumes op: "opcion s x = Inr (m, s')" and k: "k < length (lista (gestor s))"
    and na: "estado (lista (gestor s) ! k) \<noteq> ''activo''"
  shows "k < length (lista (gestor s')) \<and> lista (gestor s') ! k = lista (gestor s) ! k"
proof -
  have keep: "mutar_primero (\<lambda>a. identificador a = i) f (lista (gestor s)) ! k
      = lista (gestor s) ! k"
    if "buscar (gestor s) i = Some a" "estado a = ''activo''" for i a f
    using that k na
    by (intro mutar_primero_keeps [where q = "\<lambda>a. estado a = ''activo''" and x = a])
       (simp_all add: buscar_def)
  show ?thesis
  proof (cases x)
    case (Crear i cm ci q fs fr)
    with op k show ?thesis
      by (auto simp: proceso_creacion_def crear_def Let_def nth_append
          split: option.splits if_splits)
  next
    case (Devolver i)
    with op k keep show ?thesis
      by (auto simp: proceso_devolucion_def length_mutar_primero split: option.splits if_splits)
  next
    case (Cancelar i)
    with op k keep show ?thesis
      by (auto simp: proceso_cancelacion_def length_mutar_primero split: option.splits if_splits)
  next
    case (Extender i f)
    with op k keep show ?thesis
      by (auto simp: proceso_extension_def length_mutar_primero
          split: option.splits if_splits sum.splits)
  qed
qed

text \<open>
  C8. An assignment of the list whose status is not \<open>activo\<close>, whatever the status
  is, stays exactly the same record (status, dates and every other field) at
  the same place of the list through every run of creations, returns,
  cancellations and extensions: the screens change only an assignment they
  found active. The queries \<open>obtener_todas\<close>, \<open>obtener_activas\<close>, \<open>obtener_vencidas\<close> and
  \<open>obtener_por_miembro\<close> return lists and no state.
\<close>

theorem estado_no_activo_inmutable:
  assumes "k < length (lista (gestor s))"
    and "estado (lista (gestor s) ! k) \<noteq> ''activo''"
  shows "k < length (lista (gestor (snd (ejecutar s ords))))
       \<and> lista (gestor (snd (ejecutar s ords))) ! k = lista (gestor s) ! k"
  using assms
proof (induction ords arbitrary: s)
  case Nil
  then show ?case by simp
next
  case (Cons x xs)
  show ?case
  proof (cases "opcion s x")
    case (Inl e)
    with Cons.prems show ?thesis by simp
  next
    case (Inr r)
    obtain m s' where r: "r = (m, s')" by (cases r)
    from opcion_no_activa [OF Inr [unfolded r] Cons.prems]
    have 1: "k < length (lista (gestor s'))" "lista (gestor s') ! k = lista (gestor s) ! k"
      by simp_all
    with Cons.prems have "estado (lista (gestor s') ! k) \<noteq> ''activo''" by simp
    from Cons.IH [OF 1(1) this] 1(2) Inr r show ?thesis by simp
  qed
qed

theorem estado_no_activo_inmutable_witness:
  "lista (gestor (snd (ejecutar
       (sistema_A3\<lparr>gestor := \<lparr>lista = [asig_A3\<lparr>estado := ''cancelado''\<rparr>], ids_usados = {''A3''}\<rparr>\<rparr>)
       [Devolver ''A3'', Cancelar ''A3'', Extender ''A3'' ''2025-03-01'',
        Crear ''A4'' ''M1'' ''T1'' ''1'' ''2025-01-01'' ''2025-01-10''])))
     ! 0 = asig_A3\<lparr>estado := ''cancelado''\<rparr>
   \<and> map estado (lista (gestor (snd (ejecutar
       (sistema_A3\<lparr>gestor := \<lparr>lista = [asig_A3\<lparr>estado := ''cancelado''\<rparr>], ids_usados = {''A3''}\<rparr>\<rparr>)
       [Devolver ''A3'', Cancelar ''A3'', Extender ''A3'' ''2025-03-01'',
        Crear ''A4'' ''M1'' ''T1'' ''1'' ''2025-01-01'' ''2025-01-10''])))) = [''cancelado'', ''activo'']"
  using estado_no_activo_inmutable [where k = 0
      and s = "sistema_A3\<lparr>gestor := \<lparr>lista = [asig_A3\<lparr>estado := ''cancelado''\<rparr>],
                 ids_usados = {''A3''}\<rparr>\<rparr>"
      and ords = "[Devolver ''A3'', Cancelar ''A3'', Extender ''A3'' ''2025-03-01'',
        Crear ''A4'' ''M1'' ''T1'' ''1'' ''2025-01-01'' ''2025-01-10'']"]
  by (simp add: evaluar)

text \<open>
  The screens keep the stored dates valid: a creation stores dates that
  \<open>validar_fecha\<close> accepted, an extension a date it accepted, and returns and
  cancellations leave the dates alone. Over valid stored dates, and with a valid
  current date, the overdue listing does not raise.
\<close>

lemma todos_mutar_primero:
  "\<forall>a\<in>set xs. P a \<Longrightarrow> (\<And>a. P a \<Longrightarrow> P (f a)) \<Longrightarrow> \<forall>a\<in>set (mutar_primero p f xs). P a"
  by (induction xs) simp_all

lemma fechas_validas_opcion:
  assumes inv: "\<forall>a\<in>set (lista (gestor s)).
      validar_fecha (fecha_salida a) \<and> validar_fecha (fecha_retorno a)"
    and op: "opcion s x = Inr (m, s')"
  shows "\<forall>a\<in>set (lista (gestor s')).
      validar_fecha (fecha_salida a) \<and> validar_fecha (fecha_retorno a)"
proof (cases x)
  case (Crear i cm ci q fs fr)
  with inv op show ?thesis
    by (auto simp: proceso_creacion_def crear_def Let_def split: option.splits if_splits)
next
  case (Devolver i)
  from todos_mutar_primero [OF inv, of "\<lambda>a. a\<lparr>estado := ''devuelto''\<rparr>"]
  have "\<forall>a\<in>set (mutar_primero p (\<lambda>a. a\<lparr>estado := ''devuelto''\<rparr>) (lista (gestor s))).
      validar_fecha (fecha_salida a) \<and> validar_fecha (fecha_retorno a)" for p
    by simp
  with Devolver inv op show ?thesis
    by (auto simp: proceso_devolucion_def split: option.splits if_splits)
next
  case (Cancelar i)
  from todos_mutar_primero [OF inv, of "\<lambda>a. a\<lparr>estado := ''cancelado''\<rparr>"]
  have "\<forall>a\<in>set (mutar_primero p (\<lambda>a. a\<lparr>estado := ''cancelado''\<rparr>) (lista (gestor s))).
      validar_fecha (fecha_salida a) \<and> validar_fecha (fecha_retorno a)" for p
    by simp
  with Cancelar inv op show ?thesis
    by (auto simp: proceso_cancelacion_def split: option.splits if_splits)
next
  case (Extender i f)
  have "\<forall>a\<in>set (mutar_primero p (\<lambda>a. a\<lparr>fecha_retorno := f\<rparr>) (lista (gestor s))).
      validar_fecha (fecha_salida a) \<and> validar_fecha (fecha_retorno a)"
    if "validar_fecha f" for p
    using todos_mutar_primero [OF inv, of "\<lambda>a. a\<lparr>fecha_retorno := f\<rparr>"] that by simp
  with Extender inv op show ?thesis
    by (auto simp: proceso_extension_def split: option.splits if_splits sum.splits)
qed

lemma filtrar_vencidas_no_falla:
  assumes "validar_fecha hoy"
    and "\<forall>a\<in>set xs. validar_fecha (fecha_retorno a)"
  shows "\<exists>vs. filtrar_vencidas hoy xs = Inr vs"
  using assms(2)
proof (induction xs)
  case Nil
  then show ?case by simp
next
  case (Cons a xs)
  from assms(1) Cons.prems obtain t d where "strptime hoy = Some t"
    "strptime (fecha_retorno a) = Some d"
    by (auto simp: validar_fecha_def)
  then have "esta_vencido hoy a = Inr (estado a = ''activo'' \<and> d < t)"
    by (auto simp: esta_vencido_def comparar_fechas_Some)
  then obtain v where "esta_vencido hoy a = Inr v" by blast
  moreover from Cons obtain vs where "filtrar_vencidas hoy xs = Inr vs" by auto
  ultimately show ?case by simp
qed

text \<open>
  C9. \<open>_cargar\<close> stores the date fields of a line without validating them. The
  line below is loaded with the due date \<open>pronto\<close>, which \<open>validar_fecha\<close> rejects;
  \<open>esta_vencido\<close> on the loaded record and \<open>obtener_vencidas\<close> on the loaded
  collection then raise \<open>ValueError\<close>.
\<close>

theorem cargar_no_valida_fechas:
  "lista (cargar [''A9,M1,T1,1,2025-01-01,pronto,activo''])
     = [asig_A3\<lparr>identificador := ''A9'', unidades := 1, fecha_retorno := ''pronto''\<rparr>]
   \<and> \<not> validar_fecha ''pronto''
   \<and> esta_vencido ''2025-02-01''
        (asig_A3\<lparr>identificador := ''A9'', unidades := 1, fecha_retorno := ''pronto''\<rparr>)
      = Inl ValueError
   \<and> obtener_vencidas ''2025-02-01'' (cargar [''A9,M1,T1,1,2025-01-01,pronto,activo''])
      = Inl ValueError"
  by (simp add: evaluar)

end
